theory Spec2Isabelle
  imports Complex_Main
begin

section \<open>Values of the JavaScript runtime\<close>

text \<open>
  The value \<open>res.json()\<close> resolves to is a parsed JSON document. A number is kept by its
  value, a string by its sequence of code units, an object by the list of its own
  properties (JSON.parse leaves one entry per key).
\<close>

datatype json =
    JNull
  | JBool bool
  | JNum rat
  | JStr string
  | JArr "json list"
  | JObj "(string \<times> json) list"

text \<open>What an expression over such a document evaluates to: \<open>undefined\<close> or a JSON value.\<close>

datatype jsval = Undefined | Val json

text \<open>
  What is thrown: \<open>new Error(message)\<close>, the runtime's TypeError and SyntaxError, and the
  rejections of \<open>fetch\<close> and of \<open>res.json()\<close>, which belong to the platform.
\<close>

datatype error =
    Error string
  | TypeError
  | SyntaxError
  | Rejected string

text \<open>The four property names \<open>lib/contentful.ts\<close> reads from the response.\<close>

datatype property = P_errors | P_length | P_data | P_message

fun prop_name :: "property \<Rightarrow> string" where
  "prop_name P_errors = ''errors''"
| "prop_name P_length = ''length''"
| "prop_name P_data = ''data''"
| "prop_name P_message = ''message''"

text \<open>
  The member expression \<open>v.p\<close> for one of these names. Reading a property of \<open>null\<close>
  or \<open>undefined\<close> throws a TypeError; a string and an array have \<open>length\<close> and none of
  the other three; booleans and numbers have none of the four; an object answers with
  its own property, and \<open>Object.prototype\<close> has none of the four.
\<close>

fun getProp :: "jsval \<Rightarrow> property \<Rightarrow> error + jsval" where
  "getProp Undefined p = Inl TypeError"
| "getProp (Val JNull) p = Inl TypeError"
| "getProp (Val (JBool b)) p = Inr Undefined"
| "getProp (Val (JNum n)) p = Inr Undefined"
| "getProp (Val (JStr s)) p =
     (if p = P_length then Inr (Val (JNum (of_nat (length s)))) else Inr Undefined)"
| "getProp (Val (JArr xs)) p =
     (if p = P_length then Inr (Val (JNum (of_nat (length xs)))) else Inr Undefined)"
| "getProp (Val (JObj kvs)) p =
     (case map_of kvs (prop_name p) of None \<Rightarrow> Inr Undefined | Some v \<Rightarrow> Inr (Val v))"

text \<open>Optional chaining \<open>v?.p\<close>: \<open>undefined\<close> when \<open>v\<close> is \<open>null\<close> or \<open>undefined\<close>.\<close>

fun optChain :: "jsval \<Rightarrow> property \<Rightarrow> error + jsval" where
  "optChain Undefined p = Inr Undefined"
| "optChain (Val JNull) p = Inr Undefined"
| "optChain v p = getProp v p"

text \<open>ToBoolean, as the condition of an \<open>if\<close> applies it.\<close>

fun truthy :: "jsval \<Rightarrow> bool" where
  "truthy Undefined = False"
| "truthy (Val JNull) = False"
| "truthy (Val (JBool b)) = b"
| "truthy (Val (JNum n)) = (n \<noteq> 0)"
| "truthy (Val (JStr s)) = (s \<noteq> [])"
| "truthy (Val (JArr xs)) = True"
| "truthy (Val (JObj kvs)) = True"

text \<open>
  The values a \<open>for ... of\<close> loop visits: the elements of an array, the characters of a
  string; nothing else among these values is iterable.
\<close>

fun iterate :: "jsval \<Rightarrow> error + jsval list" where
  "iterate (Val (JArr xs)) = Inr (map Val xs)"
| "iterate (Val (JStr s)) = Inr (map (\<lambda>c. Val (JStr [c])) s)"
| "iterate v = Inl TypeError"

text \<open>
  An environment variable is a string or \<open>undefined\<close>. \<open>!x\<close> holds of \<open>undefined\<close> and of
  the empty string; a template literal prints \<open>undefined\<close> as the word.
\<close>

fun falsy :: "string option \<Rightarrow> bool" where
  "falsy None = True"
| "falsy (Some s) = (s = [])"

fun template :: "string option \<Rightarrow> string" where
  "template None = ''undefined''"
| "template (Some s) = s"

section \<open>lib/contentful.ts: the module and its initialisation\<close>

record ImportMetaEnv =
  env_CONTENTFUL_SPACE_ID :: "string option"
  env_CONTENTFUL_DELIVERY_TOKEN :: "string option"
  env_CONTENTFUL_PREVIEW_TOKEN :: "string option"
  env_CONTENTFUL_ENVIRONMENT :: "string option"
  env_GRAPHQL_API_URL :: "string option"

text \<open>The constants the module exports once its two checks have passed.\<close>

record contentful_module =
  CONTENTFUL_SPACE_ID :: "string option"
  CONTENTFUL_ENVIRONMENT :: string
  CONTENTFUL_DELIVERY_TOKEN :: "string option"
  CONTENTFUL_PREVIEW_TOKEN :: "string option"

definition loadModule :: "ImportMetaEnv \<Rightarrow> error + contentful_module" where
  "loadModule env =
     (if falsy (env_CONTENTFUL_SPACE_ID env) then Inl (Error ''Missing CONTENTFUL_SPACE_ID'')
      else if falsy (env_CONTENTFUL_DELIVERY_TOKEN env) \<and> falsy (env_CONTENTFUL_PREVIEW_TOKEN env)
        then Inl (Error ''Missing Contentful API tokens'')
      else Inr \<lparr>
        CONTENTFUL_SPACE_ID = env_CONTENTFUL_SPACE_ID env,
        CONTENTFUL_ENVIRONMENT =
          (if falsy (env_CONTENTFUL_ENVIRONMENT env) then ''master''
           else template (env_CONTENTFUL_ENVIRONMENT env)),
        CONTENTFUL_DELIVERY_TOKEN = env_CONTENTFUL_DELIVERY_TOKEN env,
        CONTENTFUL_PREVIEW_TOKEN = env_CONTENTFUL_PREVIEW_TOKEN env \<rparr>)"

section \<open>lib/contentful.ts: fetchContentful\<close>

record options =
  preview :: "bool option"
  logErrors :: "bool option"

text \<open>
  The request handed to \<open>fetch\<close>. The body is the document \<open>JSON.stringify\<close> serialises:
  an \<open>undefined\<close> \<open>variables\<close> leaves no property behind.
\<close>

record request =
  url :: string
  http_method :: string
  headers :: "(string \<times> string) list"
  body :: json

text \<open>A response is used through \<open>res.json()\<close> alone, which rejects or yields a document.\<close>

record response =
  json_body :: "error + json"

text \<open>
  What stands outside the function: the network behind \<open>fetch\<close>, and the digits the
  runtime prints a number with.
\<close>

record world =
  fetch :: "request \<Rightarrow> error + response"
  numberToString :: "rat \<Rightarrow> string"

text \<open>
  ToString, which a template literal applies to the value it prints. An array prints its
  elements joined by commas, \<open>null\<close> among them as nothing. An object prints as
  \<open>[object Object]\<close> through \<open>Object.prototype.toString\<close>, unless it has a \<open>toString\<close>
  property of its own: that one is no function, \<open>valueOf\<close> yields no primitive either,
  and the conversion throws a TypeError.
\<close>

fun toStringJS :: "(rat \<Rightarrow> string) \<Rightarrow> json \<Rightarrow> error + string"
  and joinJS :: "(rat \<Rightarrow> string) \<Rightarrow> json list \<Rightarrow> error + string" where
  "toStringJS f JNull = Inr ''null''"
| "toStringJS f (JBool b) = Inr (if b then ''true'' else ''false'')"
| "toStringJS f (JNum n) = Inr (f n)"
| "toStringJS f (JStr s) = Inr s"
| "toStringJS f (JArr xs) = joinJS f xs"
| "toStringJS f (JObj kvs) =
     (case map_of kvs ''toString'' of
        Some v \<Rightarrow> Inl TypeError
      | None \<Rightarrow> Inr ''[object Object]'')"
| "joinJS f [] = Inr []"
| "joinJS f (x # xs) =
     (case (case x of JNull \<Rightarrow> Inr [] | y \<Rightarrow> toStringJS f x) of
        Inl e \<Rightarrow> Inl e
      | Inr s \<Rightarrow>
          (case xs of
             [] \<Rightarrow> Inr s
           | x' # xs' \<Rightarrow>
               (case joinJS f xs of Inl e \<Rightarrow> Inl e | Inr t \<Rightarrow> Inr (s @ '','' @ t))))"

fun toStringOf :: "world \<Rightarrow> jsval \<Rightarrow> error + string" where
  "toStringOf w Undefined = Inr ''undefined''"
| "toStringOf w (Val j) = toStringJS (numberToString w) j"

text \<open>The effects of a run, in the order they happen.\<close>

datatype event =
    Fetch request
  | ConsoleError string

text \<open>\<open>options?.preview ?? false\<close>\<close>

definition previewOf :: "options option \<Rightarrow> bool" where
  "previewOf opts =
     (case opts of None \<Rightarrow> False
      | Some ops \<Rightarrow> (case preview ops of None \<Rightarrow> False | Some b \<Rightarrow> b))"

text \<open>\<open>options?.logErrors !== false\<close>\<close>

definition loggingOf :: "options option \<Rightarrow> bool" where
  "loggingOf opts =
     (case opts of None \<Rightarrow> True
      | Some ops \<Rightarrow> (case logErrors ops of None \<Rightarrow> True | Some b \<Rightarrow> b))"

definition contentfulRequest ::
  "contentful_module \<Rightarrow> string \<Rightarrow> json option \<Rightarrow> options option \<Rightarrow> request" where
  "contentfulRequest m query variables opts =
     (let token = (if previewOf opts then CONTENTFUL_PREVIEW_TOKEN m
                   else CONTENTFUL_DELIVERY_TOKEN m);
          endpoint = ''https://graphql.contentful.com/content/v1/spaces/''
                     @ template (CONTENTFUL_SPACE_ID m)
                     @ ''/environments/'' @ CONTENTFUL_ENVIRONMENT m
      in \<lparr> url = endpoint,
           http_method = ''POST'',
           headers = [(''Content-Type'', ''application/json''),
                      (''Authorization'', ''Bearer '' @ template token)],
           body = JObj ((''query'', JStr query) #
                        (case variables of None \<Rightarrow> [] | Some v \<Rightarrow> [(''variables'', v)])) \<rparr>)"

text \<open>
  The loop \<open>for (const err of json.errors) console.error(`- ${err.message}`)\<close> over the
  values it visits: it stops at the first \<open>err\<close> whose \<open>message\<close> cannot be read or
  cannot be printed.
\<close>

fun logEach :: "world \<Rightarrow> jsval list \<Rightarrow> event list \<times> (error + unit)" where
  "logEach w [] = ([], Inr ())"
| "logEach w (err # errs) =
     (case getProp err P_message of
        Inl e \<Rightarrow> ([], Inl e)
      | Inr msg \<Rightarrow>
          (case toStringOf w msg of
             Inl e \<Rightarrow> ([], Inl e)
           | Inr s \<Rightarrow>
               (case logEach w errs of
                  (evs, r) \<Rightarrow> (ConsoleError (''- '' @ s) # evs, r))))"

definition logErrorsOf :: "world \<Rightarrow> jsval \<Rightarrow> event list \<times> (error + unit)" where
  "logErrorsOf w errs =
     (case iterate errs of
        Inl e \<Rightarrow> ([ConsoleError ''Contentful GraphQL errors:''], Inl e)
      | Inr items \<Rightarrow>
          (case logEach w items of
             (evs, r) \<Rightarrow> (ConsoleError ''Contentful GraphQL errors:'' # evs, r)))"

text \<open>What follows \<open>const json = await res.json()\<close>.\<close>

definition checkResponse ::
  "world \<Rightarrow> options option \<Rightarrow> json \<Rightarrow> event list \<times> (error + jsval)" where
  "checkResponse w opts j =
     (case getProp (Val j) P_errors of
        Inl e \<Rightarrow> ([], Inl e)
      | Inr errs \<Rightarrow>
          (case optChain errs P_length of
             Inl e \<Rightarrow> ([], Inl e)
           | Inr len \<Rightarrow>
               if truthy len then
                 (if loggingOf opts then
                    (case logErrorsOf w errs of
                       (evs, Inl e) \<Rightarrow> (evs, Inl e)
                     | (evs, Inr u) \<Rightarrow> (evs, Inl (Error ''Contentful GraphQL query failed'')))
                  else ([], Inl (Error ''Contentful GraphQL query failed'')))
               else
                 (case getProp (Val j) P_data of
                    Inl e \<Rightarrow> ([], Inl e)
                  | Inr d \<Rightarrow> ([], Inr d))))"

definition fetchContentful ::
  "contentful_module \<Rightarrow> world \<Rightarrow> string \<Rightarrow> json option \<Rightarrow> options option
     \<Rightarrow> event list \<times> (error + jsval)" where
  "fetchContentful m w query variables opts =
     (let req = contentfulRequest m query variables opts
      in case fetch w req of
           Inl e \<Rightarrow> ([Fetch req], Inl e)
         | Inr res \<Rightarrow>
             (case json_body res of
                Inl e \<Rightarrow> ([Fetch req], Inl e)
              | Inr j \<Rightarrow>
                  (case checkResponse w opts j of
                     (evs, r) \<Rightarrow> (Fetch req # evs, r))))"

text \<open>The requests a run has sent, and what a run hands back: the value returned, or nothing
  when it threw.\<close>

fun sent :: "event list \<Rightarrow> request list" where
  "sent [] = []"
| "sent (Fetch r # evs) = r # sent evs"
| "sent (ConsoleError line # evs) = sent evs"

fun outcome :: "error + jsval \<Rightarrow> jsval option" where
  "outcome (Inl e) = None"
| "outcome (Inr v) = Some v"

section \<open>GraphQL responses, as the specification speaks of them\<close>

text \<open>
  A GraphQL response is an object; its \<open>errors\<close> entry, when there is one, is a list of
  errors, each an object with a string for its \<open>message\<close> (a \<open>null\<close> entry is taken as
  no entry). It carries errors when that list is not empty, and its data is its \<open>data\<close>
  entry.
\<close>

fun graphql_error :: "json \<Rightarrow> bool" where
  "graphql_error (JObj kvs) =
     (case map_of kvs ''message'' of Some (JStr s) \<Rightarrow> True | other \<Rightarrow> False)"
| "graphql_error j = False"

fun graphql_response :: "json \<Rightarrow> bool" where
  "graphql_response (JObj kvs) =
     (case map_of kvs ''errors'' of
        None \<Rightarrow> True
      | Some JNull \<Rightarrow> True
      | Some (JArr es) \<Rightarrow> list_all graphql_error es
      | Some j \<Rightarrow> False)"
| "graphql_response j = False"

fun errors_nonempty :: "json \<Rightarrow> bool" where
  "errors_nonempty (JObj kvs) =
     (case map_of kvs ''errors'' of Some (JArr (e # es)) \<Rightarrow> True | other \<Rightarrow> False)"
| "errors_nonempty j = False"

fun data_field :: "json \<Rightarrow> jsval" where
  "data_field (JObj kvs) = (case map_of kvs ''data'' of None \<Rightarrow> Undefined | Some d \<Rightarrow> Val d)"
| "data_field j = Undefined"

text \<open>
  The data of the query \<open>PageBySlug\<close> (graphql/getPageBySlug.ts, type \<open>PageBySlugQuery\<close>)
  holds the page under \<open>pageCollection.items\<close>, at most one by \<open>limit: 1\<close>. The page for
  the slug is missing when there is no such item.
\<close>

fun first_item :: "json \<Rightarrow> json option" where
  "first_item (JArr (JObj page # items)) = Some (JObj page)"
| "first_item j = None"

fun page_of :: "jsval \<Rightarrow> json option" where
  "page_of (Val (JObj kvs)) =
     (case map_of kvs ''pageCollection'' of
        Some (JObj pc) \<Rightarrow> (case map_of pc ''items'' of Some items \<Rightarrow> first_item items | None \<Rightarrow> None)
      | other \<Rightarrow> None)"
| "page_of v = None"

definition page_missing :: "jsval \<Rightarrow> bool" where
  "page_missing d = (page_of d = None)"

text \<open>
  The fetch outcome in the specification's words: the request or the reading of its body
  throws, and that error is the outcome; or the response carries errors, and the outcome
  is the one error of a failed query; or the outcome is the response's data.
\<close>

definition fetch_spec :: "world \<Rightarrow> request \<Rightarrow> error + jsval" where
  "fetch_spec w req =
     (case fetch w req of
        Inl e \<Rightarrow> Inl e
      | Inr res \<Rightarrow>
          (case json_body res of
             Inl e \<Rightarrow> Inl e
           | Inr j \<Rightarrow>
               if errors_nonempty j then Inl (Error ''Contentful GraphQL query failed'')
               else Inr (data_field j)))"

text \<open>The network answers a request with a GraphQL response whenever it answers with a document.\<close>

definition answers_graphql :: "world \<Rightarrow> request \<Rightarrow> bool" where
  "answers_graphql w req =
     (case fetch w req of
        Inl e \<Rightarrow> True
      | Inr res \<Rightarrow> (case json_body res of Inl e \<Rightarrow> True | Inr j \<Rightarrow> graphql_response j))"

definition authorization :: "request \<Rightarrow> string option" where
  "authorization r = map_of (headers r) ''Authorization''"

subsection \<open>Sample configurations and responses\<close>

definition nothing_set :: ImportMetaEnv where
  "nothing_set =
     \<lparr> env_CONTENTFUL_SPACE_ID = None, env_CONTENTFUL_DELIVERY_TOKEN = None,
       env_CONTENTFUL_PREVIEW_TOKEN = None, env_CONTENTFUL_ENVIRONMENT = None,
       env_GRAPHQL_API_URL = None \<rparr>"

definition empty_space_id :: ImportMetaEnv where
  "empty_space_id =
     \<lparr> env_CONTENTFUL_SPACE_ID = Some [], env_CONTENTFUL_DELIVERY_TOKEN = Some ''delivery'',
       env_CONTENTFUL_PREVIEW_TOKEN = Some ''preview'', env_CONTENTFUL_ENVIRONMENT = None,
       env_GRAPHQL_API_URL = None \<rparr>"

definition preview_token_only :: ImportMetaEnv where
  "preview_token_only =
     \<lparr> env_CONTENTFUL_SPACE_ID = Some ''space'', env_CONTENTFUL_DELIVERY_TOKEN = None,
       env_CONTENTFUL_PREVIEW_TOKEN = Some ''preview'', env_CONTENTFUL_ENVIRONMENT = None,
       env_GRAPHQL_API_URL = None \<rparr>"

definition preview_only_module :: contentful_module where
  "preview_only_module =
     \<lparr> CONTENTFUL_SPACE_ID = Some ''space'', CONTENTFUL_ENVIRONMENT = ''master'',
       CONTENTFUL_DELIVERY_TOKEN = None, CONTENTFUL_PREVIEW_TOKEN = Some ''preview'' \<rparr>"

definition sample_module :: contentful_module where
  "sample_module =
     \<lparr> CONTENTFUL_SPACE_ID = Some ''space'', CONTENTFUL_ENVIRONMENT = ''master'',
       CONTENTFUL_DELIVERY_TOKEN = Some ''delivery'', CONTENTFUL_PREVIEW_TOKEN = Some ''preview'' \<rparr>"

text \<open>A network that answers every request with the document \<open>j\<close>. No sample prints a
  number, so one numeral stands for the digits of them all.\<close>

definition answering :: "json \<Rightarrow> world" where
  "answering j =
     \<lparr> fetch = (\<lambda>req. Inr \<lparr> json_body = Inr j \<rparr>), numberToString = (\<lambda>n. ''0'') \<rparr>"

text \<open>A response outside the GraphQL format: its one error has a message that cannot be printed.\<close>

definition unprintable_error_response :: json where
  "unprintable_error_response =
     JObj [(''errors'', JArr [JObj [(''message'', JObj [(''toString'', JNum 0)])]])]"

text \<open>The answer to \<open>PageBySlug\<close> for a slug no page has: an empty collection, no errors.\<close>

definition no_page_response :: json where
  "no_page_response = JObj [(''data'', JObj [(''pageCollection'', JObj [(''items'', JArr [])])])]"

definition failed_query_response :: json where
  "failed_query_response =
     JObj [(''data'', JNull),
           (''errors'', JArr [JObj [(''message'', JStr ''Cannot query field'')]])]"

definition slug_variables :: json where
  "slug_variables = JObj [(''slug'', JStr ''no-such-page'')]"

section \<open>The block renderer and its registry\<close>

text \<open>
  Of components/BlockRenderer.astro the sources hold one declaration, the table \<open>BLOCKS\<close>
  as README.md gives it: \<open>const BLOCKS: Record<string, string> = { ... }\<close>, content type
  name to component path. The registry is populated by evaluating this object literal,
  one \<open>key: value\<close> after the other. A key defines a property of the object, or gives a
  new value to the property an earlier key defined. The key \<open>__proto__\<close> defines no
  property: with a string for value it is passed over, and the literal that writes it
  twice is refused as a syntax error. The object is kept as the map from its keys to
  their values.
\<close>

fun evaluateProperties ::
  "(string \<rightharpoonup> string) \<Rightarrow> (string \<times> string) list \<Rightarrow> (string \<rightharpoonup> string)" where
  "evaluateProperties obj [] = obj"
| "evaluateProperties obj ((k, v) # props) =
     (if k = ''__proto__'' then evaluateProperties obj props
      else evaluateProperties (obj(k \<mapsto> v)) props)"

definition objectLiteral :: "(string \<times> string) list \<Rightarrow> error + (string \<rightharpoonup> string)" where
  "objectLiteral props =
     (if 2 \<le> count_list (map fst props) ''__proto__'' then Inl SyntaxError
      else Inr (evaluateProperties Map.empty props))"

text \<open>The literal of \<open>BLOCKS\<close>, as README.md writes it.\<close>

definition BLOCKS :: "(string \<times> string) list" where
  "BLOCKS =
     [(''HeroSection'', ''./blocks/HeroSection.astro''),
      (''CallToActionSection'', ''./blocks/CallToActionSection.astro''),
      (''ImageWithContent'', ''./blocks/ImageWithContent.astro'')]"

text \<open>A literal that writes HeroSection twice, and one that writes it again after another kind.\<close>

definition hero_twice :: "(string \<times> string) list" where
  "hero_twice =
     [(''HeroSection'', ''./blocks/HeroSection.astro''),
      (''HeroSection'', ''./blocks/Other.astro'')]"

definition hero_again :: "(string \<times> string) list" where
  "hero_again =
     [(''HeroSection'', ''./blocks/HeroSection.astro''),
      (''CallToActionSection'', ''./blocks/CallToActionSection.astro''),
      (''HeroSection'', ''./blocks/Other.astro'')]"

text \<open>
  Modelled from the spec: the block record of section 3, which BlockRenderer.astro
  receives; a \<open>kind\<close> discriminator and a payload of fields.
\<close>

record 'f block =
  kind :: string
  block_fields :: 'f

text \<open>
  Modelled from the spec: the renderer registry of sections 3 and 4.1, absent from the
  sources with BlockRenderer.astro; discriminator to rendering capability, a function
  from a block's fields to a fragment.
\<close>

type_synonym ('f, 'g) registry = "(string \<times> ('f \<Rightarrow> 'g)) list"

definition lookup :: "('f, 'g) registry \<Rightarrow> string \<Rightarrow> ('f \<Rightarrow> 'g) option" where
  \<comment> \<open>Modelled from the spec: operation \<open>lookup(kind)\<close> of section 4.1.\<close>
  "lookup reg k = map_of reg k"

text \<open>
  Modelled from the spec: the registry the renderer consults; the entries of \<open>BLOCKS\<close>,
  each path turned into its component by the dynamic import \<open>load\<close>.
\<close>

definition blocks_registry :: "(string \<Rightarrow> 'f \<Rightarrow> 'g) \<Rightarrow> ('f, 'g) registry" where
  "blocks_registry load = map (\<lambda>(k, path). (k, load path)) BLOCKS"

text \<open>
  Modelled from the spec: the side effects section 4.2 speaks of; the diagnostic for an
  unknown kind, with the kind name and the position, and network I/O.
\<close>

datatype effect =
    Diagnostic string nat
  | NetworkIO request

fun network_io :: "effect list \<Rightarrow> request list" where
  "network_io [] = []"
| "network_io (NetworkIO r # effs) = r # network_io effs"
| "network_io (Diagnostic k i # effs) = network_io effs"

text \<open>
  Modelled from the spec: what the dispatch loop of section 4.2 works on; the registry,
  the page's block sequence (its input), the fragments produced (its output) and the
  effects performed so far.
\<close>

record ('f, 'g) renderer_state =
  registry :: "('f, 'g) registry"
  builder :: "'f block list"
  fragments :: "'g list"
  effects :: "effect list"

definition dispatch ::
  "('f, 'g) renderer_state \<Rightarrow> nat \<Rightarrow> 'f block \<Rightarrow> ('f, 'g) renderer_state" where
  \<comment> \<open>Modelled from the spec: one turn of the loop of section 4.2, for the block at position \<open>i\<close>.\<close>
  "dispatch st i b =
     (case lookup (registry st) (kind b) of
        Some r \<Rightarrow> st\<lparr>fragments := fragments st @ [r (block_fields b)]\<rparr>
      | None \<Rightarrow> st\<lparr>effects := effects st @ [Diagnostic (kind b) i]\<rparr>)"

text \<open>
  Modelled from the spec: the loop of section 4.2 from position \<open>i\<close> on, in sequence order.
\<close>

function renderFrom :: "('f, 'g) renderer_state \<Rightarrow> nat \<Rightarrow> ('f, 'g) renderer_state" where
  "renderFrom st i =
     (if i < length (builder st) then renderFrom (dispatch st i (builder st ! i)) (Suc i)
      else st)"
  by pat_completeness auto
termination
  by (relation "measure (\<lambda>(st, i). length (builder st) - i)")
     (auto simp: dispatch_def split: option.splits)

declare renderFrom.simps [simp del]

definition renderBlocks :: "('f, 'g) renderer_state \<Rightarrow> ('f, 'g) renderer_state" where
  \<comment> \<open>Modelled from the spec: the block renderer of section 4.2; one render pass.\<close>
  "renderBlocks st = renderFrom (st\<lparr>fragments := []\<rparr>) 0"

text \<open>
  Modelled from the spec: the requests of section 5, served one after the other; each
  brings the block sequence of its page.
\<close>

fun serve :: "('f, 'g) renderer_state \<Rightarrow> 'f block list list \<Rightarrow> ('f, 'g) renderer_state" where
  "serve st [] = st"
| "serve st (page # pages) = serve (renderBlocks (st\<lparr>builder := page\<rparr>)) pages"

text \<open>
  Modelled from the spec: the page request of sections 2, 5 and 7 (pages/[...slug].astro,
  absent from the sources); one call of \<open>fetchContentful\<close>, then one pass of the block
  renderer over the blocks of the page. A failed fetch fails the request as a whole and
  no fragment is rendered. How the route reads the block sequence out of the data, and
  what it reports when the data holds no page, is its parameter \<open>decode\<close>.
\<close>

definition pageRequest ::
  "contentful_module \<Rightarrow> world \<Rightarrow> (jsval \<Rightarrow> error + 'f block list) \<Rightarrow> ('f, 'g) renderer_state
     \<Rightarrow> string \<Rightarrow> json option \<Rightarrow> options option
     \<Rightarrow> event list \<times> error option \<times> ('f, 'g) renderer_state" where
  "pageRequest m w decode st query variables opts =
     (case fetchContentful m w query variables opts of
        (evs, Inl e) \<Rightarrow> (evs, Some e, st\<lparr>fragments := []\<rparr>)
      | (evs, Inr d) \<Rightarrow>
          (case decode d of
             Inl e \<Rightarrow> (evs, Some e, st\<lparr>fragments := []\<rparr>)
           | Inr blocks \<Rightarrow> (evs, None, renderBlocks (st\<lparr>builder := blocks\<rparr>))))"

text \<open>
  Modelled from the spec: the words of sections 4.2 and 8 for the renderer's result; the
  fragment of a recognised block, and the diagnostics owed for a block sequence whose
  first block stands at position \<open>i\<close>.
\<close>

definition render_one :: "('f, 'g) registry \<Rightarrow> 'f block \<Rightarrow> 'g option" where
  "render_one reg b = map_option (\<lambda>r. r (block_fields b)) (lookup reg (kind b))"

definition recognized :: "('f, 'g) registry \<Rightarrow> 'f block \<Rightarrow> bool" where
  "recognized reg b = (lookup reg (kind b) \<noteq> None)"

fun diagnostics_from :: "('f, 'g) registry \<Rightarrow> nat \<Rightarrow> 'f block list \<Rightarrow> effect list" where
  "diagnostics_from reg i [] = []"
| "diagnostics_from reg i (b # bs) =
     (if recognized reg b then diagnostics_from reg (Suc i) bs
      else Diagnostic (kind b) i # diagnostics_from reg (Suc i) bs)"

subsection \<open>Sample blocks\<close>

definition sample_load :: "string \<Rightarrow> string \<Rightarrow> string" where
  "sample_load path title = path @ ''?'' @ title"

definition hero :: "string block" where
  "hero = \<lparr> kind = ''HeroSection'', block_fields = ''Welcome'' \<rparr>"

definition unknown_kind :: "string block" where
  "unknown_kind = \<lparr> kind = ''UnknownKind'', block_fields = ''Mystery'' \<rparr>"

definition call_to_action :: "string block" where
  "call_to_action = \<lparr> kind = ''CallToActionSection'', block_fields = ''Sign up'' \<rparr>"

definition sample_decode :: "jsval \<Rightarrow> error + string block list" where
  "sample_decode d =
     (case page_of d of
        None \<Rightarrow> Inl (Error ''Page not found'')
      | Some page \<Rightarrow> Inr [hero, unknown_kind, call_to_action])"

definition sample_state :: "(string, string) renderer_state" where
  "sample_state =
     \<lparr> registry = blocks_registry sample_load, builder = [], fragments = [], effects = [] \<rparr>"

section \<open>Properties of lib/contentful.ts\<close>

subsection \<open>The effects of a run\<close>

lemma sent_logEach: "logEach w xs = (evs, r) \<Longrightarrow> sent evs = []"
  by (induction xs arbitrary: evs r) (auto split: sum.splits prod.splits)

lemma sent_logErrorsOf: "logErrorsOf w errs = (evs, r) \<Longrightarrow> sent evs = []"
  by (auto simp: logErrorsOf_def split: sum.splits prod.splits dest: sent_logEach)

lemma sent_checkResponse: "checkResponse w opts j = (evs, r) \<Longrightarrow> sent evs = []"
  by (auto simp: checkResponse_def split: sum.splits prod.splits if_splits dest: sent_logErrorsOf)

lemma sent_fetchContentful:
  "sent (fst (fetchContentful m w q v opts)) = [contentfulRequest m q v opts]"
  by (auto simp: fetchContentful_def Let_def split: sum.splits prod.splits dest: sent_checkResponse)

lemma snd_fetchContentful:
  "snd (fetchContentful m w q v opts) =
     (case fetch w (contentfulRequest m q v opts) of
        Inl e \<Rightarrow> Inl e
      | Inr res \<Rightarrow>
          (case json_body res of
             Inl e \<Rightarrow> Inl e
           | Inr j \<Rightarrow> snd (checkResponse w opts j)))"
  by (simp add: fetchContentful_def Let_def split: sum.splits prod.splits)

lemma authorization_contentfulRequest:
  "authorization (contentfulRequest m q v opts) =
     Some (''Bearer '' @ template (if previewOf opts then CONTENTFUL_PREVIEW_TOKEN m
                                    else CONTENTFUL_DELIVERY_TOKEN m))"
  by (simp add: authorization_def contentfulRequest_def Let_def)

subsection \<open>Responses that follow the GraphQL format\<close>

lemma logEach_graphql_errors:
  "list_all graphql_error es \<Longrightarrow> snd (logEach w (map Val es)) = Inr ()"
proof (induction es)
  case Nil
  then show ?case by simp
next
  case (Cons e es)
  then obtain kvs s where "e = JObj kvs" "map_of kvs ''message'' = Some (JStr s)"
    by (cases e) (auto split: option.splits json.splits)
  with Cons show ?case by (auto split: prod.splits)
qed

lemma checkResponse_graphql:
  assumes "graphql_response j"
  shows "snd (checkResponse w opts j) =
           (if errors_nonempty j then Inl (Error ''Contentful GraphQL query failed'')
            else Inr (data_field j))"
proof -
  from assms obtain kvs where j: "j = JObj kvs" by (cases j) auto
  show ?thesis
  proof (cases "map_of kvs ''errors''")
    case None
    with j show ?thesis by (simp add: checkResponse_def split: option.splits)
  next
    case (Some errs)
    with assms j consider "errs = JNull" | es where "errs = JArr es" "list_all graphql_error es"
      by (cases errs) auto
    then show ?thesis
    proof cases
      case 1
      with j Some show ?thesis by (simp add: checkResponse_def split: option.splits)
    next
      case 2
      show ?thesis
      proof (cases es)
        case Nil
        with 2 j Some show ?thesis by (simp add: checkResponse_def split: option.splits)
      next
        case (Cons e es')
        with 2 j Some logEach_graphql_errors [of es w] show ?thesis
          by (auto simp: checkResponse_def logErrorsOf_def split: prod.splits sum.splits)
      qed
    qed
  qed
qed

lemma fetchContentful_refines:
  assumes "answers_graphql w (contentfulRequest m q v opts)"
  shows "snd (fetchContentful m w q v opts) = fetch_spec w (contentfulRequest m q v opts)"
proof (cases "fetch w (contentfulRequest m q v opts)")
  case (Inl e)
  then show ?thesis by (simp add: snd_fetchContentful fetch_spec_def)
next
  case (Inr res)
  show ?thesis
  proof (cases "json_body res")
    case (Inl e)
    with Inr show ?thesis by (simp add: snd_fetchContentful fetch_spec_def)
  next
    case body: (Inr j)
    with Inr assms have "graphql_response j" by (simp add: answers_graphql_def)
    with Inr body show ?thesis
      by (simp add: snd_fetchContentful fetch_spec_def checkResponse_graphql)
  qed
qed

subsection \<open>Logging and the outcome\<close>

lemma outcome_checkResponse:
  "outcome (snd (checkResponse w o1 j)) = outcome (snd (checkResponse w o2 j))"
  by (auto simp: checkResponse_def split: sum.splits prod.splits)

lemma outcome_fetchContentful:
  "contentfulRequest m q v o1 = contentfulRequest m q v o2 \<Longrightarrow>
   outcome (snd (fetchContentful m w q v o1)) = outcome (snd (fetchContentful m w q v o2))"
  by (simp add: snd_fetchContentful outcome_checkResponse [of w o1 _ o2] split: sum.splits)

lemma contentfulRequest_logErrors:
  "contentfulRequest m q v (Some \<lparr>preview = p, logErrors = l1\<rparr>) =
   contentfulRequest m q v (Some \<lparr>preview = p, logErrors = l2\<rparr>)"
  "contentfulRequest m q v None = contentfulRequest m q v (Some \<lparr>preview = None, logErrors = l\<rparr>)"
  by (simp_all add: contentfulRequest_def previewOf_def)

subsection \<open>The claims about the fetcher\<close>

text \<open>
  C3, as it stands, fails: asked for a slug no page has, Contentful answers with an empty
  page collection and no errors, and \<open>fetchContentful\<close> returns that data; it raises
  nothing, although the page for the slug is missing.
\<close>

theorem fetchContentful_missing_page_returns:
  "page_missing (data_field no_page_response) \<and>
   snd (fetchContentful sample_module (answering no_page_response)
          ''query PageBySlug'' (Some slug_variables) None)
     = Inr (data_field no_page_response)"
  by (simp add: page_missing_def no_page_response_def snd_fetchContentful answering_def
        checkResponse_def)

text \<open>
  C3, amended: for every call to \<open>fetchContentful\<close> that is answered in the GraphQL
  format, the call raises a single terminal error (and returns no data, so zero fragments
  are rendered for the request) exactly when the fetch fails: when the network request
  throws, when the body of the response cannot be read as JSON, or when the response
  carries a non-empty errors array; otherwise it returns the response's data field, also
  when that data holds no page for the slug. One request is sent in every case: no retry
  is attempted.
\<close>

theorem fetchContentful_fails_iff_fetch_fails:
  assumes "answers_graphql w (contentfulRequest m q v opts)"
  shows "snd (fetchContentful m w q v opts) = fetch_spec w (contentfulRequest m q v opts)
         \<and> sent (fst (fetchContentful m w q v opts)) = [contentfulRequest m q v opts]
         \<and> (\<forall>e. snd (fetchContentful m w q v opts) = Inl e \<longrightarrow>
               fst (snd (pageRequest m w decode st q v opts)) = Some e
               \<and> fragments (snd (snd (pageRequest m w decode st q v opts))) = []
               \<and> sent (fst (pageRequest m w decode st q v opts)) = [contentfulRequest m q v opts])"
proof -
  have request: "fst (snd (pageRequest m w decode st q v opts)) = Some e
      \<and> fragments (snd (snd (pageRequest m w decode st q v opts))) = []
      \<and> sent (fst (pageRequest m w decode st q v opts)) = [contentfulRequest m q v opts]"
    if raised: "snd (fetchContentful m w q v opts) = Inl e" for e
  proof -
    obtain evs where run: "fetchContentful m w q v opts = (evs, Inl e)"
      using raised by (metis prod.collapse)
    from sent_fetchContentful [of m w q v opts] have "sent evs = [contentfulRequest m q v opts]"
      unfolding run by simp
    then show ?thesis
      unfolding pageRequest_def run by simp
  qed
  from assms request show ?thesis
    by (simp add: fetchContentful_refines sent_fetchContentful)
qed

text \<open>The amended C3 at a response that carries one error.\<close>

theorem fetchContentful_fails_iff_fetch_fails_witness:
  "answers_graphql (answering failed_query_response)
     (contentfulRequest sample_module ''query PageBySlug'' (Some slug_variables) None)
   \<and> snd (fetchContentful sample_module (answering failed_query_response)
            ''query PageBySlug'' (Some slug_variables) None)
       = Inl (Error ''Contentful GraphQL query failed'')
   \<and> length (sent (fst (fetchContentful sample_module (answering failed_query_response)
            ''query PageBySlug'' (Some slug_variables) None))) = 1
   \<and> fst (snd (pageRequest sample_module (answering failed_query_response) sample_decode
            sample_state ''query PageBySlug'' (Some slug_variables) None))
       = Some (Error ''Contentful GraphQL query failed'')
   \<and> fragments (snd (snd (pageRequest sample_module (answering failed_query_response)
            sample_decode sample_state ''query PageBySlug'' (Some slug_variables) None))) = []"
proof -
  have h: "answers_graphql (answering failed_query_response)
     (contentfulRequest sample_module ''query PageBySlug'' (Some slug_variables) None)"
    by (simp add: answers_graphql_def answering_def failed_query_response_def)
  have f: "fetch_spec (answering failed_query_response)
     (contentfulRequest sample_module ''query PageBySlug'' (Some slug_variables) None)
       = Inl (Error ''Contentful GraphQL query failed'')"
    by (simp add: fetch_spec_def answering_def failed_query_response_def)
  from h f fetchContentful_fails_iff_fetch_fails [OF h, of sample_decode sample_state]
  show ?thesis
    by simp
qed

text \<open>
  Outside the GraphQL format the error can be another: a message that cannot be printed
  makes the logging loop throw its TypeError before the error of the failed query.
\<close>

lemma fetchContentful_unprintable_message:
  "snd (fetchContentful sample_module (answering unprintable_error_response)
          ''query PageBySlug'' (Some slug_variables) None) = Inl TypeError
   \<and> snd (fetchContentful sample_module (answering unprintable_error_response)
          ''query PageBySlug'' (Some slug_variables) (Some \<lparr>preview = None, logErrors = Some False\<rparr>))
       = Inl (Error ''Contentful GraphQL query failed'')"
  by (simp add: snd_fetchContentful answering_def unprintable_error_response_def
        checkResponse_def logErrorsOf_def loggingOf_def)

text \<open>
  C8: for every call to \<open>fetchContentful\<close>, the one request sent carries as bearer the
  preview token when \<open>options.preview\<close> is true, and the delivery token in every other
  case: when it is false, when the field is absent, and when no options are given. A
  token \<open>t\<close> is sent as \<open>Bearer t\<close>, an unset one as \<open>Bearer undefined\<close>.
\<close>

theorem fetchContentful_bearer_token:
  "map authorization (sent (fst (fetchContentful (m\<lparr>CONTENTFUL_PREVIEW_TOKEN := Some t\<rparr>) w q v
       (Some \<lparr>preview = Some True, logErrors = l\<rparr>))))
     = [Some (''Bearer '' @ t)]
   \<and> map authorization (sent (fst (fetchContentful (m\<lparr>CONTENTFUL_PREVIEW_TOKEN := None\<rparr>) w q v
       (Some \<lparr>preview = Some True, logErrors = l\<rparr>))))
     = [Some ''Bearer undefined'']
   \<and> map authorization (sent (fst (fetchContentful (m\<lparr>CONTENTFUL_DELIVERY_TOKEN := Some t\<rparr>) w q v
       (Some \<lparr>preview = Some False, logErrors = l\<rparr>))))
     = [Some (''Bearer '' @ t)]
   \<and> map authorization (sent (fst (fetchContentful (m\<lparr>CONTENTFUL_DELIVERY_TOKEN := None\<rparr>) w q v
       (Some \<lparr>preview = Some False, logErrors = l\<rparr>))))
     = [Some ''Bearer undefined'']
   \<and> map authorization (sent (fst (fetchContentful (m\<lparr>CONTENTFUL_DELIVERY_TOKEN := Some t\<rparr>) w q v
       (Some \<lparr>preview = None, logErrors = l\<rparr>))))
     = [Some (''Bearer '' @ t)]
   \<and> map authorization (sent (fst (fetchContentful (m\<lparr>CONTENTFUL_DELIVERY_TOKEN := None\<rparr>) w q v
       (Some \<lparr>preview = None, logErrors = l\<rparr>))))
     = [Some ''Bearer undefined'']
   \<and> map authorization (sent (fst (fetchContentful (m\<lparr>CONTENTFUL_DELIVERY_TOKEN := Some t\<rparr>) w q v
       None)))
     = [Some (''Bearer '' @ t)]
   \<and> map authorization (sent (fst (fetchContentful (m\<lparr>CONTENTFUL_DELIVERY_TOKEN := None\<rparr>) w q v
       None)))
     = [Some ''Bearer undefined'']"
  by (simp add: sent_fetchContentful authorization_contentfulRequest previewOf_def)

text \<open>
  C9, as it stands, fails twice. With no variable set, both tokens are unset and yet the
  module throws 'Missing CONTENTFUL_SPACE_ID', not 'Missing Contentful API tokens': the
  first check throws before the second is reached. And a space ID that is set, to the
  empty string, is refused like one that is unset.
\<close>

theorem loadModule_not_exactly_when_unset:
  "env_CONTENTFUL_DELIVERY_TOKEN nothing_set = None
   \<and> env_CONTENTFUL_PREVIEW_TOKEN nothing_set = None
   \<and> loadModule nothing_set = Inl (Error ''Missing CONTENTFUL_SPACE_ID'')
   \<and> loadModule nothing_set \<noteq> Inl (Error ''Missing Contentful API tokens'')
   \<and> env_CONTENTFUL_SPACE_ID empty_space_id \<noteq> None
   \<and> loadModule empty_space_id = Inl (Error ''Missing CONTENTFUL_SPACE_ID'')"
  by (simp add: loadModule_def nothing_set_def empty_space_id_def)

text \<open>
  C9, amended: module initialization throws 'Missing CONTENTFUL_SPACE_ID' exactly when
  the space ID is unset or empty, and throws 'Missing Contentful API tokens' exactly when
  the space ID is neither and both tokens are unset or empty; it succeeds in every other
  case, so a configuration providing only one of the two tokens passes validation, even
  though \<open>fetchContentful\<close> can later select the absent token: when the delivery token is
  unset and preview is left false, the bearer sent is the word \<open>undefined\<close>.
\<close>

theorem loadModule_validation:
  "(loadModule env = Inl (Error ''Missing CONTENTFUL_SPACE_ID'')
      \<longleftrightarrow> env_CONTENTFUL_SPACE_ID env \<in> {None, Some []})
   \<and> (loadModule env = Inl (Error ''Missing Contentful API tokens'')
      \<longleftrightarrow> env_CONTENTFUL_SPACE_ID env \<notin> {None, Some []}
          \<and> env_CONTENTFUL_DELIVERY_TOKEN env \<in> {None, Some []}
          \<and> env_CONTENTFUL_PREVIEW_TOKEN env \<in> {None, Some []})
   \<and> ((\<exists>m. loadModule env = Inr m)
      \<longleftrightarrow> env_CONTENTFUL_SPACE_ID env \<notin> {None, Some []}
          \<and> (env_CONTENTFUL_DELIVERY_TOKEN env \<notin> {None, Some []}
             \<or> env_CONTENTFUL_PREVIEW_TOKEN env \<notin> {None, Some []}))
   \<and> (loadModule env = Inr m \<longrightarrow> env_CONTENTFUL_DELIVERY_TOKEN env = None \<longrightarrow>
        map authorization (sent (fst (fetchContentful m w q v None)))
          = [Some ''Bearer undefined''])"
proof -
  have space: "loadModule env = Inl (Error ''Missing CONTENTFUL_SPACE_ID'')
      \<longleftrightarrow> env_CONTENTFUL_SPACE_ID env \<in> {None, Some []}"
    by (cases "env_CONTENTFUL_SPACE_ID env") (simp_all add: loadModule_def)
  have tokens: "loadModule env = Inl (Error ''Missing Contentful API tokens'')
      \<longleftrightarrow> env_CONTENTFUL_SPACE_ID env \<notin> {None, Some []}
          \<and> env_CONTENTFUL_DELIVERY_TOKEN env \<in> {None, Some []}
          \<and> env_CONTENTFUL_PREVIEW_TOKEN env \<in> {None, Some []}"
    by (cases "env_CONTENTFUL_SPACE_ID env"; cases "env_CONTENTFUL_DELIVERY_TOKEN env";
        cases "env_CONTENTFUL_PREVIEW_TOKEN env") (simp_all add: loadModule_def)
  have passes: "(\<exists>m. loadModule env = Inr m)
      \<longleftrightarrow> env_CONTENTFUL_SPACE_ID env \<notin> {None, Some []}
          \<and> (env_CONTENTFUL_DELIVERY_TOKEN env \<notin> {None, Some []}
             \<or> env_CONTENTFUL_PREVIEW_TOKEN env \<notin> {None, Some []})"
    by (cases "env_CONTENTFUL_SPACE_ID env"; cases "env_CONTENTFUL_DELIVERY_TOKEN env";
        cases "env_CONTENTFUL_PREVIEW_TOKEN env") (simp_all add: loadModule_def)
  have absent: "map authorization (sent (fst (fetchContentful m w q v None)))
          = [Some ''Bearer undefined'']"
    if "loadModule env = Inr m" "env_CONTENTFUL_DELIVERY_TOKEN env = None"
  proof -
    from that have "CONTENTFUL_DELIVERY_TOKEN m = None"
      by (auto simp: loadModule_def split: if_splits)
    then show ?thesis
      by (simp add: sent_fetchContentful authorization_contentfulRequest previewOf_def)
  qed
  from space tokens passes absent show ?thesis
    by blast
qed

text \<open>The amended C9 at a configuration that provides the preview token alone.\<close>

theorem loadModule_validation_witness:
  "loadModule preview_token_only = Inr preview_only_module
   \<and> env_CONTENTFUL_DELIVERY_TOKEN preview_token_only = None
   \<and> loadModule preview_token_only \<noteq> Inl (Error ''Missing Contentful API tokens'')
   \<and> map authorization (sent (fst (fetchContentful preview_only_module
        (answering no_page_response) ''query PageBySlug'' (Some slug_variables) None)))
       = [Some ''Bearer undefined'']"
proof -
  have l: "loadModule preview_token_only = Inr preview_only_module"
    by (simp add: loadModule_def preview_token_only_def preview_only_module_def)
  have d: "env_CONTENTFUL_DELIVERY_TOKEN preview_token_only = None"
    by (simp add: preview_token_only_def)
  from l d loadModule_validation [of preview_token_only preview_only_module
      "answering no_page_response" "''query PageBySlug''" "Some slug_variables"]
  show ?thesis
    by simp
qed

text \<open>
  C10: for every query, variables and response, two runs of \<open>fetchContentful\<close> that differ
  only in the \<open>logErrors\<close> option have the same outcome: both return, and the same
  value, or both throw. Where the response follows the GraphQL format, each error with a
  string for its message, both throw the same error as well: \<open>logErrors\<close> decides what is
  logged, never the result.
\<close>

theorem logErrors_never_changes_outcome:
  "outcome (snd (fetchContentful m w q v (Some \<lparr>preview = p, logErrors = l1\<rparr>)))
     = outcome (snd (fetchContentful m w q v (Some \<lparr>preview = p, logErrors = l2\<rparr>)))
   \<and> outcome (snd (fetchContentful m w q v None))
     = outcome (snd (fetchContentful m w q v (Some \<lparr>preview = None, logErrors = l2\<rparr>)))
   \<and> (answers_graphql w (contentfulRequest m q v (Some \<lparr>preview = p, logErrors = l1\<rparr>)) \<longrightarrow>
        snd (fetchContentful m w q v (Some \<lparr>preview = p, logErrors = l1\<rparr>))
          = snd (fetchContentful m w q v (Some \<lparr>preview = p, logErrors = l2\<rparr>)))"
proof -
  have r: "contentfulRequest m q v (Some \<lparr>preview = p, logErrors = l1\<rparr>)
         = contentfulRequest m q v (Some \<lparr>preview = p, logErrors = l2\<rparr>)"
    by (rule contentfulRequest_logErrors(1))
  have same: "outcome (snd (fetchContentful m w q v (Some \<lparr>preview = p, logErrors = l1\<rparr>)))
     = outcome (snd (fetchContentful m w q v (Some \<lparr>preview = p, logErrors = l2\<rparr>)))"
    by (rule outcome_fetchContentful [OF r])
  have absent: "outcome (snd (fetchContentful m w q v None))
     = outcome (snd (fetchContentful m w q v (Some \<lparr>preview = None, logErrors = l2\<rparr>)))"
    by (rule outcome_fetchContentful [OF contentfulRequest_logErrors(2)])
  have format: "snd (fetchContentful m w q v (Some \<lparr>preview = p, logErrors = l1\<rparr>))
          = snd (fetchContentful m w q v (Some \<lparr>preview = p, logErrors = l2\<rparr>))"
    if h1: "answers_graphql w (contentfulRequest m q v (Some \<lparr>preview = p, logErrors = l1\<rparr>))"
  proof -
    from h1 r have h2:
      "answers_graphql w (contentfulRequest m q v (Some \<lparr>preview = p, logErrors = l2\<rparr>))"
      by simp
    from fetchContentful_refines [OF h1] fetchContentful_refines [OF h2] r show ?thesis
      by simp
  qed
  from same absent format show ?thesis
    by blast
qed

text \<open>C10 at a failed query, logged in one run and silent in the other.\<close>

theorem logErrors_never_changes_outcome_witness:
  "answers_graphql (answering failed_query_response)
     (contentfulRequest sample_module ''query PageBySlug'' (Some slug_variables)
        (Some \<lparr>preview = None, logErrors = Some True\<rparr>))
   \<and> snd (fetchContentful sample_module (answering failed_query_response) ''query PageBySlug''
           (Some slug_variables) (Some \<lparr>preview = None, logErrors = Some True\<rparr>))
     = snd (fetchContentful sample_module (answering failed_query_response) ''query PageBySlug''
           (Some slug_variables) (Some \<lparr>preview = None, logErrors = Some False\<rparr>))
   \<and> fst (fetchContentful sample_module (answering failed_query_response) ''query PageBySlug''
           (Some slug_variables) (Some \<lparr>preview = None, logErrors = Some True\<rparr>))
     \<noteq> fst (fetchContentful sample_module (answering failed_query_response) ''query PageBySlug''
           (Some slug_variables) (Some \<lparr>preview = None, logErrors = Some False\<rparr>))"
proof -
  have h: "answers_graphql (answering failed_query_response)
     (contentfulRequest sample_module ''query PageBySlug'' (Some slug_variables)
        (Some \<lparr>preview = None, logErrors = Some True\<rparr>))"
    by (simp add: answers_graphql_def answering_def failed_query_response_def)
  have e: "fst (fetchContentful sample_module (answering failed_query_response) ''query PageBySlug''
           (Some slug_variables) (Some \<lparr>preview = None, logErrors = Some True\<rparr>))
     \<noteq> fst (fetchContentful sample_module (answering failed_query_response) ''query PageBySlug''
           (Some slug_variables) (Some \<lparr>preview = None, logErrors = Some False\<rparr>))"
    by (simp add: fetchContentful_def answering_def failed_query_response_def checkResponse_def
          logErrorsOf_def loggingOf_def Let_def)
  show ?thesis
    using h e logErrors_never_changes_outcome [of sample_module "answering failed_query_response"
        "''query PageBySlug''" "Some slug_variables" None "Some True" "Some False"]
    by simp
qed

section \<open>Properties of the block renderer and its registry\<close>

subsection \<open>The registry\<close>

lemma evaluateProperties_map_of:
  "''__proto__'' \<notin> fst ` set props \<Longrightarrow>
     evaluateProperties obj props = obj ++ map_of (rev props)"
proof (induction props arbitrary: obj)
  case Nil
  then show ?case by simp
next
  case (Cons p props)
  obtain k v where p: "p = (k, v)" by (cases p)
  with Cons.prems have k: "k \<noteq> ''__proto__''" and rest: "''__proto__'' \<notin> fst ` set props"
    by auto
  have "evaluateProperties obj (p # props) = evaluateProperties (obj(k \<mapsto> v)) props"
    using p k by simp
  also have "\<dots> = obj(k \<mapsto> v) ++ map_of (rev props)"
    by (rule Cons.IH [OF rest])
  also have "\<dots> = obj ++ map_of (rev (p # props))"
    unfolding p
    by (auto simp: fun_eq_iff map_add_def split: option.splits)
  finally show ?case .
qed

lemma lookup_blocks_registry:
  "lookup (blocks_registry load) k = map_option load (map_of BLOCKS k)"
  by (simp add: lookup_def blocks_registry_def BLOCKS_def)

lemma lookup_absent: "k \<notin> fst ` set reg \<Longrightarrow> lookup reg k = None"
  by (simp add: lookup_def map_of_eq_None_iff)

subsection \<open>The dispatch loop\<close>

lemma dispatch_frame:
  "registry (dispatch st i b) = registry st"
  "builder (dispatch st i b) = builder st"
  by (simp_all add: dispatch_def split: option.splits)

lemma renderFrom_unfold:
  "renderFrom st i =
     st\<lparr>fragments := fragments st
          @ List.map_filter (render_one (registry st)) (drop i (builder st)),
        effects := effects st @ diagnostics_from (registry st) i (drop i (builder st))\<rparr>"
proof (induction st i rule: renderFrom.induct)
  case (1 st i)
  show ?case
  proof (cases "i < length (builder st)")
    case True
    then have d: "drop i (builder st) = builder st ! i # drop (Suc i) (builder st)"
      by (simp add: Cons_nth_drop_Suc)
    have "renderFrom st i = renderFrom (dispatch st i (builder st ! i)) (Suc i)"
      using True by (subst renderFrom.simps) simp
    also have "\<dots> = (dispatch st i (builder st ! i))
        \<lparr>fragments := fragments (dispatch st i (builder st ! i))
           @ List.map_filter (render_one (registry st)) (drop (Suc i) (builder st)),
         effects := effects (dispatch st i (builder st ! i))
           @ diagnostics_from (registry st) (Suc i) (drop (Suc i) (builder st))\<rparr>"
      using "1.IH" [OF True] by (simp add: dispatch_frame)
    also have "\<dots> = st
        \<lparr>fragments := fragments st
           @ List.map_filter (render_one (registry st)) (drop i (builder st)),
         effects := effects st @ diagnostics_from (registry st) i (drop i (builder st))\<rparr>"
      unfolding d
      by (simp add: dispatch_def render_one_def recognized_def List.map_filter_simps
               split: option.splits)
    finally show ?thesis .
  next
    case False
    then show ?thesis
      by (subst renderFrom.simps) (simp add: List.map_filter_simps)
  qed
qed

lemma renderBlocks_unfold:
  "renderBlocks st =
     st\<lparr>fragments := List.map_filter (render_one (registry st)) (builder st),
        effects := effects st @ diagnostics_from (registry st) 0 (builder st)\<rparr>"
  by (simp add: renderBlocks_def renderFrom_unfold)

lemma network_io_append: "network_io (xs @ ys) = network_io xs @ network_io ys"
  by (induction xs rule: network_io.induct) simp_all

lemma network_io_diagnostics_from: "network_io (diagnostics_from reg i bs) = []"
  by (induction bs arbitrary: i) simp_all

lemma diagnostics_from_append:
  "diagnostics_from reg i (xs @ ys) =
     diagnostics_from reg i xs @ diagnostics_from reg (i + length xs) ys"
  by (induction xs arbitrary: i) simp_all

lemma map_filter_append:
  "List.map_filter f (xs @ ys) = List.map_filter f xs @ List.map_filter f ys"
  by (simp add: List.map_filter_def)

lemma blocks_registry_keys:
  "map fst (blocks_registry load) = [''HeroSection'', ''CallToActionSection'', ''ImageWithContent'']"
  by (simp add: blocks_registry_def BLOCKS_def)

subsection \<open>The claims about the renderer\<close>

text \<open>
  C1: for every input block sequence, the empty one included, the output of the block
  renderer is the order-preserving filter-map of the input: the fragments of exactly the
  blocks whose discriminator is registered, each rendered by its renderer, in input
  order. Hence the output is no longer than the input, and empty for the empty input.
\<close>

theorem renderBlocks_filter_map:
  "fragments (renderBlocks st) = List.map_filter (render_one (registry st)) (builder st)
   \<and> fragments (renderBlocks st)
       = map (\<lambda>b. the (render_one (registry st) b)) (filter (recognized (registry st)) (builder st))
   \<and> length (fragments (renderBlocks st)) \<le> length (builder st)
   \<and> fragments (renderBlocks (st\<lparr>builder := []\<rparr>)) = []"
proof -
  have r: "recognized (registry st) = (\<lambda>b. render_one (registry st) b \<noteq> None)"
    by (simp add: recognized_def render_one_def fun_eq_iff)
  show ?thesis
    by (simp add: renderBlocks_unfold r List.map_filter_def)
qed

text \<open>
  C2: for every block whose discriminator is not in the registry, lookup returns none,
  the block contributes no fragment, a diagnostic naming its kind and position is
  emitted, and the other blocks yield the fragments they yield without it. With the
  registry of \<open>BLOCKS\<close>, the input [HeroSection, UnknownKind, CallToActionSection] yields
  the rendered hero and the rendered call to action, in that order.
\<close>

theorem unknown_block_skipped:
  assumes "kind b \<notin> fst ` set (registry st)"
  shows "lookup (registry st) (kind b) = None
   \<and> fragments (renderBlocks (st\<lparr>builder := xs @ b # ys\<rparr>))
       = fragments (renderBlocks (st\<lparr>builder := xs @ ys\<rparr>))
   \<and> Diagnostic (kind b) (length xs) \<in> set (effects (renderBlocks (st\<lparr>builder := xs @ b # ys\<rparr>)))
   \<and> fragments (renderBlocks
        \<lparr> registry = blocks_registry load,
          builder = [\<lparr>kind = ''HeroSection'', block_fields = h\<rparr>,
                     \<lparr>kind = ''UnknownKind'', block_fields = u\<rparr>,
                     \<lparr>kind = ''CallToActionSection'', block_fields = c\<rparr>],
          fragments = fs, effects = effs \<rparr>)
       = [load ''./blocks/HeroSection.astro'' h, load ''./blocks/CallToActionSection.astro'' c]"
proof -
  from assms have none: "lookup (registry st) (kind b) = None"
    by (rule lookup_absent)
  then have skip: "render_one (registry st) b = None" and "\<not> recognized (registry st) b"
    by (simp_all add: render_one_def recognized_def)
  then have diag: "Diagnostic (kind b) (length xs)
      \<in> set (effects (renderBlocks (st\<lparr>builder := xs @ b # ys\<rparr>)))"
    by (simp add: renderBlocks_unfold diagnostics_from_append)
  have same: "fragments (renderBlocks (st\<lparr>builder := xs @ b # ys\<rparr>))
       = fragments (renderBlocks (st\<lparr>builder := xs @ ys\<rparr>))"
    using skip by (simp add: renderBlocks_unfold map_filter_append List.map_filter_simps)
  have scenario: "fragments (renderBlocks
        \<lparr> registry = blocks_registry load,
          builder = [\<lparr>kind = ''HeroSection'', block_fields = h\<rparr>,
                     \<lparr>kind = ''UnknownKind'', block_fields = u\<rparr>,
                     \<lparr>kind = ''CallToActionSection'', block_fields = c\<rparr>],
          fragments = fs, effects = effs \<rparr>)
       = [load ''./blocks/HeroSection.astro'' h, load ''./blocks/CallToActionSection.astro'' c]"
    by (simp add: renderBlocks_unfold List.map_filter_simps render_one_def lookup_def
          blocks_registry_def BLOCKS_def)
  from none same diag scenario show ?thesis
    by simp
qed

text \<open>C2 at the page [HeroSection, UnknownKind, CallToActionSection].\<close>

theorem unknown_block_skipped_witness:
  "kind unknown_kind \<notin> fst ` set (registry sample_state)
   \<and> lookup (registry sample_state) ''UnknownKind'' = None
   \<and> fragments (renderBlocks (sample_state\<lparr>builder := [hero, unknown_kind, call_to_action]\<rparr>))
       = fragments (renderBlocks (sample_state\<lparr>builder := [hero, call_to_action]\<rparr>))
   \<and> Diagnostic ''UnknownKind'' 1
       \<in> set (effects (renderBlocks (sample_state\<lparr>builder := [hero, unknown_kind, call_to_action]\<rparr>)))"
proof -
  have h: "kind unknown_kind \<notin> fst ` set (registry sample_state)"
    by (simp add: unknown_kind_def sample_state_def blocks_registry_def BLOCKS_def)
  from h unknown_block_skipped [OF h, of "[hero]" "[call_to_action]" sample_load
      "''Welcome''" "''Mystery''" "''Sign up''" "[]" "[]"]
  show ?thesis
    by (simp add: unknown_kind_def)
qed

text \<open>
  C4, as it stands, fails: the registry is not populated by \<open>register\<close> calls but by the
  object literal of \<open>BLOCKS\<close>, which checks nothing. A literal that writes HeroSection
  twice evaluates without failure, to an object whose one HeroSection entry is the
  second: the first is overwritten in silence.
\<close>

theorem objectLiteral_overwrites_silently:
  "objectLiteral hero_twice = Inr [''HeroSection'' \<mapsto> ''./blocks/Other.astro'']"
  by (simp add: objectLiteral_def hero_twice_def)

text \<open>
  C4, amended: the registry is populated during process initialization by evaluating one
  object literal, and for every pair of entries of it with the same kind string (the
  reserved key \<open>__proto__\<close> apart) the evaluation succeeds and the second entry replaces
  the first in silence: every kind holds the value written for it last. The literal of
  \<open>BLOCKS\<close> writes every kind once, and evaluates to its entries as written, which are
  what the renderer's lookup finds.
\<close>

theorem objectLiteral_last_entry_wins:
  "(''__proto__'' \<notin> fst ` set props \<longrightarrow> objectLiteral props = Inr (map_of (rev props)))
   \<and> objectLiteral BLOCKS = Inr (map_of BLOCKS)
   \<and> lookup (blocks_registry load) k = map_option load (map_of BLOCKS k)"
proof -
  have last: "objectLiteral props = Inr (map_of (rev props))"
    if h: "''__proto__'' \<notin> fst ` set props" for props
  proof -
    from h have "count_list (map fst props) ''__proto__'' = 0"
      by (simp add: count_list_0_iff)
    then show ?thesis
      by (simp add: objectLiteral_def evaluateProperties_map_of [OF h])
  qed
  have "objectLiteral BLOCKS = Inr (map_of (rev BLOCKS))"
    by (rule last) (simp add: BLOCKS_def)
  moreover have "map_of (rev BLOCKS) = map_of BLOCKS"
    by (auto simp: BLOCKS_def fun_eq_iff)
  ultimately have "objectLiteral BLOCKS = Inr (map_of BLOCKS)"
    by simp
  with last [of props] lookup_blocks_registry [of load k] show ?thesis
    by blast
qed

text \<open>The amended C4 at a literal that writes HeroSection, another kind, and HeroSection again.\<close>

theorem objectLiteral_last_entry_wins_witness:
  "''__proto__'' \<notin> fst ` set hero_again
   \<and> objectLiteral hero_again = Inr (map_of (rev hero_again))
   \<and> map_of (rev hero_again) ''HeroSection'' = Some ''./blocks/Other.astro''
   \<and> map_of (rev hero_again) ''CallToActionSection'' = Some ''./blocks/CallToActionSection.astro''"
proof -
  have h: "''__proto__'' \<notin> fst ` set hero_again"
    by (simp add: hero_again_def)
  have r: "map_of (rev hero_again) ''HeroSection'' = Some ''./blocks/Other.astro''"
    "map_of (rev hero_again) ''CallToActionSection'' = Some ''./blocks/CallToActionSection.astro''"
    by (simp_all add: hero_again_def)
  from h r objectLiteral_last_entry_wins [of hero_again] show ?thesis
    by blast
qed

text \<open>
  C5: for every block sequence and every registry, rendering the sequence a second time,
  in the state the first rendering left, yields the same fragments; what a render pass
  yields depends on the registry and the block sequence alone, not on the fragments and
  effects of earlier passes.
\<close>

theorem renderBlocks_twice:
  "fragments (renderBlocks (renderBlocks st)) = fragments (renderBlocks st)
   \<and> fragments (renderBlocks (st\<lparr>fragments := fs, effects := effs\<rparr>)) = fragments (renderBlocks st)"
  by (simp add: renderBlocks_unfold)

text \<open>
  C6: for every input block sequence, the dispatch loop leaves the input sequence, and so
  every block record in it, as it was, and the registry too; it sends no request; the
  effects it adds are the diagnostics of the blocks of unknown kind, one each, in order.
\<close>

theorem renderBlocks_frame:
  "builder (renderBlocks st) = builder st
   \<and> registry (renderBlocks st) = registry st
   \<and> network_io (effects (renderBlocks st)) = network_io (effects st)
   \<and> effects (renderBlocks st) = effects st @ diagnostics_from (registry st) 0 (builder st)"
  by (simp add: renderBlocks_unfold network_io_append network_io_diagnostics_from)

text \<open>
  C7: the registry is an invariant of every request-time operation: a turn of the
  dispatch loop, a render pass and any sequence of served requests leave it as
  initialization made it, so every lookup made while rendering any page sees the same
  registry contents.
\<close>

theorem registry_invariant:
  "registry (dispatch st i b) = registry st
   \<and> registry (renderFrom st i) = registry st
   \<and> registry (renderBlocks st) = registry st
   \<and> registry (serve st pages) = registry st
   \<and> lookup (registry (serve st pages)) k = lookup (registry st) k"
proof -
  have "registry (serve st pages) = registry st"
    by (induction pages arbitrary: st) (simp_all add: renderBlocks_unfold)
  then show ?thesis
    by (simp add: dispatch_frame renderFrom_unfold renderBlocks_unfold)
qed

end
